theory Spec2Isabelle
  imports Complex_Main "HOL-Library.Log_Nat"
begin

section \<open>Names fixed by the notebooks\<close>

text \<open>
  The list of the 19 meta features and the list of the 6 most predictive ones, as the
  notebooks \<^verbatim>\<open>6_building_suggestions_graph\<close> and the training notebook declare them.
\<close>

definition features :: "string list" where
  "features = [''num_sents'', ''num_words'', ''num_all_caps'', ''percent_all_caps'',
               ''num_exclms'', ''percent_exclms'', ''num_apple_words'',
               ''percent_apple_words'', ''avg_words_per_sent'', ''num_paragraphs'',
               ''avg_sents_per_paragraph'', ''avg_words_per_paragraph'',
               ''num_images'', ''num_videos'', ''num_youtubes'', ''num_gifs'',
               ''num_hyperlinks'', ''num_bolded'', ''percent_bolded'']"

definition predictive_features :: "string list" where
  "predictive_features = [''num_hyperlinks'', ''num_images'', ''num_apple_words'',
                          ''num_exclms'', ''percent_bolded'', ''num_words'']"

section \<open>Errors and labelled series\<close>

text \<open>
  Exceptions are values. \<open>KeyError\<close> carries the labels that were not found, as the
  message of pandas does; \<open>ValueError\<close> stands for the argument checks of the libraries
  (a series whose data and index differ in length, a quantile outside \<open>[0, 1]\<close>, a
  matrix without rows, tick labels that do not match the ticks); \<open>InvalidIndexError\<close> is
  raised when series with a repeated label are put side by side in a table.

  A \<open>Series\<close> is the list of its (label, value) pairs in index order. Every series of
  the notebooks is built over \<open>features\<close> or selected from such a series, so labels are
  not repeated in an index. The products of \<open>np_multiply\<close> are exact products of
  reals; the rounding of float64 products is written out further below.
\<close>

datatype error = KeyError "string list" | ValueError | InvalidIndexError

type_synonym 'a Series = "(string \<times> 'a) list"

definition index :: "'a Series \<Rightarrow> string list" where
  "index s = map fst s"

definition pd_Series :: "'a list \<Rightarrow> string list \<Rightarrow> error + 'a Series" where
  \<comment> \<open>\<^verbatim>\<open>pd.Series(data, index=labels)\<close>: the lengths must agree.\<close>
  "pd_Series data labels =
     (if length data = length labels then Inr (zip labels data) else Inl ValueError)"

definition getitem :: "'a Series \<Rightarrow> string list \<Rightarrow> error + 'a Series" where
  \<comment> \<open>\<^verbatim>\<open>s[keys]\<close> with a list of labels: the entries in the order of \<open>keys\<close>;
      KeyError when a label is not in the index (pandas from 1.0 on).\<close>
  "getitem s keys =
     (let missing = filter (\<lambda>k. map_of s k = None) keys
      in if missing \<noteq> [] then Inl (KeyError missing)
         else Inr (map (\<lambda>k. (k, the (map_of s k))) keys))"

definition np_multiply :: "real Series \<Rightarrow> real Series \<Rightarrow> real Series" where
  \<comment> \<open>\<^verbatim>\<open>np.multiply\<close> of two series over the same index: the products, entry by entry.\<close>
  "np_multiply a b = map (\<lambda>((k, x), (k', y)). (k, x * y)) (zip a b)"

section \<open>ScoreComposer\<close>

text \<open>
  \<^verbatim>\<open>user_project_score = np.multiply(feature_vector_std[predictive_features],
                                   feature_ranks[predictive_features])\<close>
  The first selection is evaluated first, so its KeyError is the one raised when both fail.
\<close>

definition score :: "real Series \<Rightarrow> real Series \<Rightarrow> string list \<Rightarrow> error + real Series" where
  "score standardized_vector coefficients feature_subset =
     (case getitem standardized_vector feature_subset of
        Inl e \<Rightarrow> Inl e
      | Inr a \<Rightarrow>
          (case getitem coefficients feature_subset of
             Inl e \<Rightarrow> Inl e
           | Inr b \<Rightarrow> Inr (np_multiply a b)))"

definition scale :: "real \<Rightarrow> real Series \<Rightarrow> real Series" where
  \<comment> \<open>The series whose every entry is \<open>c\<close> times the entry of \<open>s\<close>.\<close>
  "scale c s = map (\<lambda>(k, x). (k, c * x)) s"

section \<open>Derived floating-point columns\<close>

text \<open>
  A cell of the table read from the database is a number or NULL (\<open>None\<close>, which pandas
  shows as NaN). A derived float64 value can also be infinite: \<^verbatim>\<open>pledged / goal\<close> on
  two columns raises nothing when the goal is zero, it gives \<open>+inf\<close>, \<open>-inf\<close> or NaN.
  \<open>fval\<close> keeps these special values and their IEEE rules; finite values are exact.
\<close>

datatype fval = NaN | NInf | Fin real | PInf

fun truediv :: "real option \<Rightarrow> real option \<Rightarrow> fval" where
  "truediv (Some p) (Some g) =
     (if g = 0 then (if 0 < p then PInf else if p < 0 then NInf else NaN)
      else Fin (p / g))"
| "truediv _ _ = NaN"

fun fle :: "fval \<Rightarrow> fval \<Rightarrow> bool" where
  "fle NaN _ = False"
| "fle _ NaN = False"
| "fle NInf _ = True"
| "fle _ PInf = True"
| "fle (Fin a) (Fin b) = (a \<le> b)"
| "fle _ _ = False"

definition fge :: "fval \<Rightarrow> fval \<Rightarrow> bool" where
  "fge a b = fle b a"

definition feq :: "fval \<Rightarrow> fval \<Rightarrow> bool" where
  \<comment> \<open>\<^verbatim>\<open>==\<close> on floats: NaN equals nothing, itself included.\<close>
  "feq a b = (a \<noteq> NaN \<and> a = b)"

fun fneg :: "fval \<Rightarrow> fval" where
  "fneg NaN = NaN"
| "fneg NInf = PInf"
| "fneg (Fin a) = Fin (- a)"
| "fneg PInf = NInf"

fun fadd :: "fval \<Rightarrow> fval \<Rightarrow> fval" where
  "fadd NaN _ = NaN"
| "fadd _ NaN = NaN"
| "fadd (Fin a) (Fin b) = Fin (a + b)"
| "fadd PInf NInf = NaN"
| "fadd NInf PInf = NaN"
| "fadd PInf _ = PInf"
| "fadd _ PInf = PInf"
| "fadd NInf _ = NInf"
| "fadd _ NInf = NInf"

definition fsub :: "fval \<Rightarrow> fval \<Rightarrow> fval" where
  "fsub a b = fadd a (fneg b)"

fun fmul :: "fval \<Rightarrow> real \<Rightarrow> fval" where
  "fmul NaN t = NaN"
| "fmul (Fin a) t = Fin (a * t)"
| "fmul PInf t = (if 0 < t then PInf else if t < 0 then NInf else NaN)"
| "fmul NInf t = (if 0 < t then NInf else if t < 0 then PInf else NaN)"

fun insort_f :: "fval \<Rightarrow> fval list \<Rightarrow> fval list" where
  "insort_f x [] = [x]"
| "insort_f x (y # ys) = (if fle x y then x # y # ys else y # insort_f x ys)"

definition sort_f :: "fval list \<Rightarrow> fval list" where
  "sort_f xs = foldr insort_f xs []"

definition lerp :: "fval \<Rightarrow> fval \<Rightarrow> real \<Rightarrow> fval" where
  \<comment> \<open>The interpolation of numpy between two neighbours \<open>a\<close> and \<open>b\<close>:
      \<open>a + (b - a) * t\<close>, and \<open>b - (b - a) * (1 - t)\<close> from \<open>t = 0.5\<close> on.\<close>
  "lerp a b t =
     (if 1 / 2 \<le> t then fsub b (fmul (fsub b a) (1 - t))
      else fadd a (fmul (fsub b a) t))"

definition quantile :: "fval list \<Rightarrow> real \<Rightarrow> error + fval" where
  \<comment> \<open>\<^verbatim>\<open>Series.quantile(q)\<close>, linear interpolation: NaN is skipped, the values are
      sorted, and the result lies at position \<open>q * (n - 1)\<close> between two neighbours.
      A quantile outside \<open>[0, 1]\<close> is a ValueError.\<close>
  "quantile xs q =
     (if q < 0 \<or> 1 < q then Inl ValueError
      else
        let vs = sort_f (filter (\<lambda>x. x \<noteq> NaN) xs); n = length vs
        in if n = 0 then Inr NaN
           else
             let pos = q * real (n - 1);
                 lo = nat \<lfloor>pos\<rfloor>;
                 hi = min (lo + 1) (n - 1);
                 fraction = pos - real lo
             in Inr (lerp (vs ! lo) (vs ! hi) fraction))"

section \<open>ReferenceAggregator\<close>

text \<open>
  One row of \<^verbatim>\<open>section1_df_full\<close>: the two funding columns and the meta-feature
  columns, looked up by name.
\<close>

record project =
  pledged :: "real option"
  goal :: "real option"
  meta :: "string \<Rightarrow> real option"

definition percent_funded :: "project \<Rightarrow> fval" where
  \<comment> \<open>\<^verbatim>\<open>section1_df_full['pledged'] / section1_df_full['goal']\<close>, row by row.\<close>
  "percent_funded r = truediv (pledged r) (goal r)"

definition quantile_limit :: "project list \<Rightarrow> real \<Rightarrow> error + fval" where
  "quantile_limit rows q = quantile (map percent_funded rows) q"

definition top_projects :: "project list \<Rightarrow> fval \<Rightarrow> project list" where
  \<comment> \<open>\<^verbatim>\<open>section1_df_full[section1_df_full['percent_funded'] >= quantile_limit]\<close>\<close>
  "top_projects rows limit = filter (\<lambda>r. fge (percent_funded r) limit) rows"

definition select_columns :: "string list \<Rightarrow> project list \<Rightarrow> real option list list" where
  \<comment> \<open>\<^verbatim>\<open>df[features]\<close>: one list of cells per row, in the order of the names.\<close>
  "select_columns names rows = map (\<lambda>r. map (meta r) names) rows"

definition isnull_all :: "real option list \<Rightarrow> bool" where
  \<comment> \<open>\<^verbatim>\<open>X.isnull().all(axis=1)\<close> for one row.\<close>
  "isnull_all row = list_all (\<lambda>c. c = None) row"

definition fillna :: "real \<Rightarrow> real option list list \<Rightarrow> real list list" where
  "fillna v X = map (map (\<lambda>c. case c of None \<Rightarrow> v | Some x \<Rightarrow> x)) X"

definition X_cleaned :: "real option list list \<Rightarrow> real list list" where
  \<comment> \<open>\<^verbatim>\<open>X[~X.isnull().all(axis=1)]\<close>, then \<^verbatim>\<open>.fillna(0)\<close>\<close>
  "X_cleaned X = fillna 0 (filter (\<lambda>row. \<not> isnull_all row) X)"

definition mean :: "real list \<Rightarrow> fval" where
  \<comment> \<open>The mean of one column; of no values it is NaN, not an error.\<close>
  "mean xs = (if xs = [] then NaN else Fin (sum_list xs / real (length xs)))"

definition df_mean :: "string list \<Rightarrow> real list list \<Rightarrow> fval Series" where
  \<comment> \<open>\<^verbatim>\<open>DataFrame.mean()\<close>: a series over the column names.\<close>
  "df_mean names X =
     map (\<lambda>j. (names ! j, mean (map (\<lambda>row. row ! j) X))) [0..<length names]"

definition avg_top_projects :: "project list \<Rightarrow> fval Series" where
  "avg_top_projects selected = df_mean features (X_cleaned (select_columns features selected))"

definition build_reference :: "project list \<Rightarrow> real \<Rightarrow> error + fval Series" where
  "build_reference cohort_rows q =
     (case quantile_limit cohort_rows q of
        Inl e \<Rightarrow> Inl e
      | Inr limit \<Rightarrow> Inr (avg_top_projects (top_projects cohort_rows limit)))"

section \<open>Products of float64 numbers\<close>

text \<open>
  \<open>score\<close> above keeps every product exact. The series of the notebook hold float64
  numbers, and \<^verbatim>\<open>np.multiply\<close> rounds each product to the nearest float64: 53
  significant bits, ties to the even neighbour, a spacing of \<open>2\<^sup>-\<^sup>1\<^sup>0\<^sup>7\<^sup>4\<close> below the normal
  range, and an infinity where the rounded product reaches \<open>2\<^sup>1\<^sup>0\<^sup>2\<^sup>4\<close>. What follows is
  the same cell with this rounding written out.
\<close>

definition exponent :: "real \<Rightarrow> int" where
  \<comment> \<open>The binary exponent \<open>e\<close> of a number other than 0: \<open>2\<^sup>e \<le> |x| < 2\<^sup>e\<^sup>+\<^sup>1\<close>.\<close>
  "exponent x =
     (let a = \<bar>x\<bar>
      in if 1 \<le> a then bitlen \<lfloor>a\<rfloor> - 1 else - bitlen (\<lceil>1 / a\<rceil> - 1))"

definition round_even :: "real \<Rightarrow> int" where
  \<comment> \<open>The nearest integer, the even one of two that are equally near.\<close>
  "round_even y =
     (let f = \<lfloor>y\<rfloor>; d = y - of_int f
      in if d < 1 / 2 then f
         else if 1 / 2 < d then f + 1
         else if even f then f else f + 1)"

definition quantum :: "real \<Rightarrow> real" where
  \<comment> \<open>The spacing of the float64 numbers around \<open>x\<close>.\<close>
  "quantum x = 2 powi (max (exponent x) (- 1022) - 52)"

definition nearest :: "real \<Rightarrow> real" where
  \<comment> \<open>The nearest multiple of the spacing.\<close>
  "nearest x = of_int (round_even (x / quantum x)) * quantum x"

definition float64 :: "real \<Rightarrow> fval" where
  \<comment> \<open>The float64 result of an operation whose exact result is \<open>x\<close>.\<close>
  "float64 x =
     (if x = 0 then Fin 0
      else if 2 powi 1024 \<le> \<bar>nearest x\<bar> then (if 0 < x then PInf else NInf)
      else Fin (nearest x))"

fun mul64 :: "fval \<Rightarrow> fval \<Rightarrow> fval" where
  "mul64 NaN _ = NaN"
| "mul64 _ NaN = NaN"
| "mul64 (Fin a) (Fin b) = float64 (a * b)"
| "mul64 (Fin a) b = fmul b a"
| "mul64 a (Fin b) = fmul a b"
| "mul64 PInf b = b"
| "mul64 NInf b = fneg b"

definition np_multiply_float64 :: "fval Series \<Rightarrow> fval Series \<Rightarrow> fval Series" where
  "np_multiply_float64 a b = map (\<lambda>((k, x), (k', y)). (k, mul64 x y)) (zip a b)"

definition score_float64 ::
  "fval Series \<Rightarrow> fval Series \<Rightarrow> string list \<Rightarrow> error + fval Series" where
  "score_float64 standardized_vector coefficients feature_subset =
     (case getitem standardized_vector feature_subset of
        Inl e \<Rightarrow> Inl e
      | Inr a \<Rightarrow>
          (case getitem coefficients feature_subset of
             Inl e \<Rightarrow> Inl e
           | Inr b \<Rightarrow> Inr (np_multiply_float64 a b)))"


definition fin :: "real Series \<Rightarrow> fval Series" where
  \<comment> \<open>A series of real numbers, each taken as a finite float64 value.\<close>
  "fin s = map (\<lambda>(k, x). (k, Fin x)) s"







section \<open>Coefficients and the training matrix\<close>

text \<open>
  \<^verbatim>\<open>feature_ranks = pd.Series(clf.coef_.T.ravel()[:len(features)], index=features)\<close>
  \<^verbatim>\<open>coef_\<close> is a matrix with one row per decision function; the classifier of the
  notebooks is binary, so it has one row.
\<close>

definition ravel_T :: "'a list list \<Rightarrow> 'a list" where
  \<comment> \<open>\<^verbatim>\<open>m.T.ravel()\<close>: the entries of the transposed matrix, row after row.\<close>
  "ravel_T m = concat (transpose m)"

definition feature_ranks :: "real list list \<Rightarrow> error + real Series" where
  "feature_ranks coef = pd_Series (take (length features) (ravel_T coef)) features"

text \<open>
  The training notebook. The scaler is fitted by the library; here it is its fitted
  parameters, one mean and one scale per column (the library never stores a zero scale).
  \<^verbatim>\<open>transform\<close> refuses a matrix without rows and a matrix whose width is not the
  scaler's.
\<close>

record scaler =
  scaler_mean :: "real list"
  scaler_scale :: "real list"

definition transform :: "scaler \<Rightarrow> real list list \<Rightarrow> error + real list list" where
  "transform sc X =
     (if X \<noteq> [] \<and> length (scaler_scale sc) = length (scaler_mean sc) \<and>
         list_all (\<lambda>row. length row = length (scaler_mean sc)) X
      then Inr (map (\<lambda>row. map (\<lambda>(x, m, s). (x - m) / s)
                               (zip row (zip (scaler_mean sc) (scaler_scale sc)))) X)
      else Inl ValueError)"

definition hstack :: "real list list \<Rightarrow> real list list \<Rightarrow> error + real list list" where
  \<comment> \<open>\<^verbatim>\<open>sparse.hstack([A, B])\<close>: the columns of \<open>A\<close>, then those of \<open>B\<close>, row by row.\<close>
  "hstack A B =
     (if length A = length B then Inr (map (\<lambda>(a, b). a @ b) (zip A B))
      else Inl ValueError)"

definition X_std :: "scaler \<Rightarrow> project list \<Rightarrow> error + real list list" where
  \<comment> \<open>\<^verbatim>\<open>X = section1_df_full[features]\<close>, cleaned as above, then standardized.\<close>
  "X_std sc rows = transform sc (X_cleaned (select_columns features rows))"

definition X_full :: "scaler \<Rightarrow> project list \<Rightarrow> real list list \<Rightarrow> error + real list list" where
  "X_full sc rows X_ngrams =
     (case X_std sc rows of
        Inl e \<Rightarrow> Inl e
      | Inr X_std_sparse \<Rightarrow> hstack X_std_sparse X_ngrams)"

definition dot :: "real list \<Rightarrow> real list \<Rightarrow> real" where
  "dot ws xs = sum_list (map (\<lambda>(w, x). w * x) (zip ws xs))"

definition decision_function :: "real list \<Rightarrow> real \<Rightarrow> real list \<Rightarrow> real" where
  \<comment> \<open>The linear classifier: one weight per column of the matrix it was fitted on.\<close>
  "decision_function coef_row intercept x = dot coef_row x + intercept"

section \<open>RecommendationAssembler\<close>

text \<open>
  \<^verbatim>\<open>messy\<close> puts the two score series side by side: \<^verbatim>\<open>pd.DataFrame\<close> refuses
  a series with a repeated label; its columns are the labels of the first series
  followed by the labels that only the second has, a cell being missing (\<open>None\<close>) where
  a series has no such label; transposed, there is one row per label. \<^verbatim>\<open>pd.melt\<close>
  stacks the rows of \<open>'Your project'\<close> over the rows of \<open>'Top projects'\<close>. The chart
  draws the categories in the order in which \<^verbatim>\<open>tidy\<close> lists them, and the tick at
  position \<open>i\<close> gets the \<open>i\<close>-th label.
\<close>

definition messy ::
  "real Series \<Rightarrow> real Series \<Rightarrow> error + (string \<times> real option \<times> real option) list" where
  "messy user_project_score top_project_score =
     (if distinct (index user_project_score) \<and> distinct (index top_project_score)
      then
        let columns = index user_project_score @
                      filter (\<lambda>k. k \<notin> set (index user_project_score))
                             (index top_project_score)
        in Inr (map (\<lambda>k. (k, map_of user_project_score k, map_of top_project_score k)) columns)
      else Inl InvalidIndexError)"

definition tidy ::
  "(string \<times> real option \<times> real option) list \<Rightarrow> (string \<times> string \<times> real option) list" where
  "tidy m = map (\<lambda>(k, x, y). (k, ''Your project'', x)) m @
            map (\<lambda>(k, x, y). (k, ''Top projects'', y)) m"

definition labels :: "string list" where
  "labels = [''hyperlinks'', ''images'', ''innovation words'', ''exclamation marks'',
             ''bolded text'', ''length of description'']"

definition yticks :: "nat \<Rightarrow> string list \<Rightarrow> error + (nat \<times> string) list" where
  \<comment> \<open>\<^verbatim>\<open>plt.yticks(np.arange(n), labels)\<close>: as many labels as ticks.\<close>
  "yticks n ls = (if length ls = n then Inr (zip [0..<n] ls) else Inl ValueError)"

definition assemble ::
  "real Series \<Rightarrow> real Series \<Rightarrow> string list \<Rightarrow>
   error + (string \<times> real option \<times> real option) list" where
  "assemble candidate_scores reference_scores ordered_feature_subset =
     (case messy candidate_scores reference_scores of
        Inl e \<Rightarrow> Inl e
      | Inr m \<Rightarrow>
          (case yticks (length ordered_feature_subset) labels of
             Inl e \<Rightarrow> Inl e
           | Inr ticks \<Rightarrow>
               Inr (map (\<lambda>((pos, label), (k, x, y)). (label, x, y)) (zip ticks m))))"

section \<open>FeatureExtractor\<close>

text \<open>
  Modelled from the spec: the module \<^verbatim>\<open>feature_engineering\<close> (\<^verbatim>\<open>process_project\<close>,
  \<^verbatim>\<open>remove_punc\<close>) is imported by the notebooks and is not among the sources. What
  follows is the FeatureExtractor and the output of the TextNormalizer as the
  specification describes them: the tokenizations and structural parts of a campaign
  section, the counts, the ratios and the averages, and the rule that a zero denominator
  gives 0.
\<close>

record campaign =
  section_text :: string
  sentences :: "string list"
  tokens :: "string list"
  paragraphs :: "string list"
  bolded_spans :: "string list"
  images :: "string list"
  videos :: "string list"
  youtubes :: "string list"
  gifs :: "string list"
  hyperlinks :: "string list"

definition is_upper :: "char \<Rightarrow> bool" where
  \<comment> \<open>Modelled from the spec: an uppercase alphabetic character.\<close>
  "is_upper c = (65 \<le> (of_char c :: nat) \<and> (of_char c :: nat) \<le> 90)"

definition is_lower :: "char \<Rightarrow> bool" where
  \<comment> \<open>Modelled from the spec: a lowercase alphabetic character.\<close>
  "is_lower c = (97 \<le> (of_char c :: nat) \<and> (of_char c :: nat) \<le> 122)"

definition to_lower :: "char \<Rightarrow> char" where
  \<comment> \<open>Modelled from the spec: case folding for the case-insensitive keyword count.\<close>
  "to_lower c = (if is_upper c then char_of (of_char c + (32 :: nat)) else c)"

definition all_caps :: "string \<Rightarrow> bool" where
  \<comment> \<open>Modelled from the spec: every alphabetic character is uppercase and there is at
      least one alphabetic character.\<close>
  "all_caps w = (list_ex is_upper w \<and> \<not> list_ex is_lower w)"

definition count :: "('a \<Rightarrow> bool) \<Rightarrow> 'a list \<Rightarrow> real" where
  \<comment> \<open>Modelled from the spec: a count, as a number of the feature vector.\<close>
  "count P xs = real (length (filter P xs))"

definition ratio :: "real \<Rightarrow> real \<Rightarrow> real" where
  \<comment> \<open>Modelled from the spec: a ratio or average; a zero denominator resolves to 0.\<close>
  "ratio a b = (if b = 0 then 0 else a / b)"

definition extract_features :: "string list \<Rightarrow> campaign \<Rightarrow> real Series" where
  \<comment> \<open>Modelled from the spec: the operation \<^verbatim>\<open>extract\<close> of the FeatureExtractor,
      with the list of innovation keywords as a parameter.\<close>
  "extract_features innovation_words c =
     (let num_sents = count (\<lambda>_. True) (sentences c);
          num_words = count (\<lambda>_. True) (tokens c);
          num_all_caps = count all_caps (tokens c);
          num_exclms = count (\<lambda>ch. ch = CHR ''!'') (section_text c);
          num_apple_words =
            count (\<lambda>w. map to_lower w \<in> set (map (map to_lower) innovation_words)) (tokens c);
          num_paragraphs = count (\<lambda>_. True) (paragraphs c);
          bolded_chars = real (sum_list (map length (bolded_spans c)));
          total_chars = real (length (section_text c))
      in [(''num_sents'', num_sents),
          (''num_words'', num_words),
          (''num_all_caps'', num_all_caps),
          (''percent_all_caps'', ratio num_all_caps num_words),
          (''num_exclms'', num_exclms),
          (''percent_exclms'', ratio num_exclms num_sents),
          (''num_apple_words'', num_apple_words),
          (''percent_apple_words'', ratio num_apple_words num_words),
          (''avg_words_per_sent'', ratio num_words num_sents),
          (''num_paragraphs'', num_paragraphs),
          (''avg_sents_per_paragraph'', ratio num_sents num_paragraphs),
          (''avg_words_per_paragraph'', ratio num_words num_paragraphs),
          (''num_images'', count (\<lambda>_. True) (images c)),
          (''num_videos'', count (\<lambda>_. True) (videos c)),
          (''num_youtubes'', count (\<lambda>_. True) (youtubes c)),
          (''num_gifs'', count (\<lambda>_. True) (gifs c)),
          (''num_hyperlinks'', count (\<lambda>_. True) (hyperlinks c)),
          (''num_bolded'', count (\<lambda>_. True) (bolded_spans c)),
          (''percent_bolded'', ratio bolded_chars total_chars)])"

section \<open>Concrete cohorts\<close>

text \<open>
  The cohort of the first end-to-end scenario of the specification: two projects with a
  goal of 100, the first pledged 200 and without images, the second pledged 50 and with
  two images; every other feature is 0.
\<close>

definition scenario1_first :: project where
  "scenario1_first = \<lparr>pledged = Some 200, goal = Some 100, meta = (\<lambda>_. Some 0)\<rparr>"

definition scenario1_second :: project where
  "scenario1_second =
     \<lparr>pledged = Some 50, goal = Some 100, meta = (\<lambda>_. Some 0)(''num_images'' := Some 2)\<rparr>"

definition scenario1_rows :: "project list" where
  "scenario1_rows = [scenario1_first, scenario1_second]"

text \<open>A third project whose ratio, 1.25, is the median of the three ratios.\<close>

definition boundary_project :: project where
  "boundary_project =
     \<lparr>pledged = Some 125, goal = Some 100, meta = (\<lambda>_. Some 0)(''num_images'' := Some 4)\<rparr>"




text \<open>A project at the top of its cohort for which no meta feature was recorded.\<close>

definition no_data_project :: project where
  "no_data_project = \<lparr>pledged = Some 200, goal = Some 100, meta = (\<lambda>_. None)\<rparr>"

definition no_data_rows :: "project list" where
  "no_data_rows = [no_data_project, scenario1_second]"

text \<open>
  Notions in which the properties of the reference vector are stated: the vector without
  any number, a missing cell read as 0, a row with at least one meta feature, and the
  vector of a cohort in which only the number of images is not 0.
\<close>

definition nan_vector :: "fval Series" where
  "nan_vector = map (\<lambda>f. (f, NaN)) features"

definition fill0 :: "real option \<Rightarrow> real" where
  \<comment> \<open>A missing value read as 0.\<close>
  "fill0 c = (case c of None \<Rightarrow> 0 | Some x \<Rightarrow> x)"

definition has_data :: "project \<Rightarrow> bool" where
  \<comment> \<open>At least one of the 19 meta features of the row is present.\<close>
  "has_data r = list_ex (\<lambda>f. meta r f \<noteq> None) features"


section \<open>Concrete score series\<close>

text \<open>
  Scores over the six predictive features, and scores over a list of six names that
  starts with \<^verbatim>\<open>num_videos\<close>, a meta feature for which the chart has no label.
\<close>

definition example_candidate :: "real Series" where
  "example_candidate = zip predictive_features [1, - 2, 3, - 4, 5, - 6]"

definition example_reference :: "real Series" where
  "example_reference = zip predictive_features [6, 5, 4, 3, 2, 1]"

definition unlabelled_subset :: "string list" where
  "unlabelled_subset = [''num_videos'', ''num_images'', ''num_apple_words'',
                        ''num_exclms'', ''percent_bolded'', ''num_words'']"

definition unlabelled_candidate :: "real Series" where
  "unlabelled_candidate = zip unlabelled_subset [1, - 2, 3, - 4, 5, - 6]"

definition unlabelled_reference :: "real Series" where
  "unlabelled_reference = zip unlabelled_subset [6, 5, 4, 3, 2, 1]"

section \<open>Concrete training data\<close>

text \<open>
  The standardized meta features of one training project, in the order of \<open>features\<close>
  (the notion in which the rows of the training matrix are described); a scaler that
  changes nothing; a coefficient row for the 19 meta features and two
  n-grams; and the n-gram rows of two projects.
\<close>

definition standardized_row :: "scaler \<Rightarrow> project \<Rightarrow> real list" where
  \<comment> \<open>Each cell read as 0 when missing, minus the mean of its column, over its scale.\<close>
  "standardized_row sc r =
     map (\<lambda>(f, m, s). (fill0 (meta r f) - m) / s)
         (zip features (zip (scaler_mean sc) (scaler_scale sc)))"

definition unit_scaler :: scaler where
  "unit_scaler = \<lparr>scaler_mean = map (\<lambda>_. 0) features, scaler_scale = map (\<lambda>_. 1) features\<rparr>"

definition example_coef :: "real list" where
  "example_coef = [1, 2, 3, 4, 5, 6, 7, 8, 9, 10, 11, 12, 13, 14, 15, 16, 17, 18, 19, 20, 21]"

definition example_ngrams :: "real list list" where
  "example_ngrams = [[1 / 2, 0], [0, 1]]"

section \<open>Concrete campaign sections\<close>

text \<open>
  Modelled from the spec: two inputs of the FeatureExtractor, a short section with three
  sentences and a text in which no sentence and no paragraph was found.
\<close>

definition example_campaign :: campaign where
  "example_campaign =
     \<lparr>section_text = ''WOW! This NEW robot is smart. Back it!'',
      sentences = [''WOW!'', ''This NEW robot is smart.'', ''Back it!''],
      tokens = [''WOW'', ''This'', ''NEW'', ''robot'', ''is'', ''smart'', ''Back'', ''it''],
      paragraphs = [''WOW! This NEW robot is smart. Back it!''],
      bolded_spans = [''NEW''],
      images = [], videos = [], youtubes = [], gifs = [],
      hyperlinks = [''https://example.org'']\<rparr>"

definition no_sentence_campaign :: campaign where
  "no_sentence_campaign =
     \<lparr>section_text = ''hello world'',
      sentences = [],
      tokens = [''hello'', ''world''],
      paragraphs = [],
      bolded_spans = [],
      images = [], videos = [], youtubes = [], gifs = [], hyperlinks = []\<rparr>"

section \<open>Properties of the embedding\<close>

subsection \<open>Selection by labels\<close>

lemma map_of_scale: "map_of (scale c s) k = map_option (\<lambda>x. c * x) (map_of s k)"
  by (induction s) (auto simp: scale_def)

lemma getitem_ok:
  "\<forall>k\<in>set keys. map_of s k \<noteq> None \<Longrightarrow>
   getitem s keys = Inr (map (\<lambda>k. (k, the (map_of s k))) keys)"
  by (simp add: getitem_def filter_empty_conv)

lemma getitem_missing:
  "\<exists>k\<in>set keys. map_of s k = None \<Longrightarrow>
   getitem s keys = Inl (KeyError (filter (\<lambda>k. map_of s k = None) keys))"
  by (auto simp: getitem_def filter_empty_conv)

lemma map_of_None_index: "map_of s k = None \<longleftrightarrow> k \<notin> set (index s)"
  by (simp add: index_def map_of_eq_None_iff)

lemma np_multiply_selected:
  "np_multiply (map (\<lambda>k. (k, f k)) keys) (map (\<lambda>k. (k, g k)) keys) =
   map (\<lambda>k. (k, f k * g k)) keys"
  by (induction keys) (simp_all add: np_multiply_def)

lemma map_of_selected: "k \<in> set keys \<Longrightarrow> map_of (map (\<lambda>k. (k, h k)) keys) k = Some (h k)"
  by (induction keys) auto

lemma scale_selected:
  "scale c (map (\<lambda>k. (k, f k)) keys) = map (\<lambda>k. (k, c * f k)) keys"
  by (simp add: scale_def comp_def)

lemma getitem_scale:
  "getitem (scale c s) keys = map_sum id (scale c) (getitem s keys)"
proof -
  have none: "(\<lambda>k. map_of (scale c s) k = None) = (\<lambda>k. map_of s k = None)"
    by (simp add: map_of_scale)
  show ?thesis
  proof (cases "filter (\<lambda>k. map_of s k = None) keys = []")
    case True
    then have "\<forall>k\<in>set keys. map_of s k \<noteq> None"
      by (simp add: filter_empty_conv)
    then have "map (\<lambda>k. (k, the (map_of (scale c s) k))) keys =
               map (\<lambda>k. (k, c * the (map_of s k))) keys"
      by (auto simp: map_of_scale)
    then have "map (\<lambda>k. (k, the (map_of (scale c s) k))) keys =
               scale c (map (\<lambda>k. (k, the (map_of s k))) keys)"
      by (simp only: scale_selected)
    with True show ?thesis
      by (simp add: getitem_def none)
  next
    case False
    then show ?thesis
      by (simp add: getitem_def none)
  qed
qed

lemma np_multiply_scale:
  "np_multiply (scale c a) b = scale c (np_multiply a b)"
proof (induction a arbitrary: b)
  case Nil
  show ?case by (simp add: np_multiply_def scale_def)
next
  case (Cons p a)
  then show ?case
    by (cases b; cases p) (auto simp: np_multiply_def scale_def)
qed

subsection \<open>ScoreComposer\<close>

text \<open>
  C1. For every feature name in the caller-supplied subset, \<open>score\<close> returns the product
  of the standardized value and the coefficient of that name, in a series over exactly
  the subset; and when the subset contains a name that is absent from the standardized
  vector or from the coefficients, \<open>score\<close> fails with a KeyError that names labels of
  the subset, and returns no series at all. The KeyError for any missing label is the
  behaviour of pandas from version 1.0 on.
\<close>

theorem score_lookup:
  "((\<forall>name\<in>set S. name \<in> set (index v) \<and> name \<in> set (index w)) \<longrightarrow>
      (\<exists>sc. score v w S = Inr sc \<and> index sc = S \<and>
         (\<forall>name\<in>set S. \<exists>x y. map_of v name = Some x \<and> map_of w name = Some y \<and>
                                 map_of sc name = Some (x * y)))) \<and>
   ((\<exists>name\<in>set S. name \<notin> set (index v) \<or> name \<notin> set (index w)) \<longrightarrow>
      (\<exists>missing. missing \<noteq> [] \<and> set missing \<subseteq> set S \<and>
                 score v w S = Inl (KeyError missing)))"
proof (intro conjI impI)
  assume ok: "\<forall>name\<in>set S. name \<in> set (index v) \<and> name \<in> set (index w)"
  then have v: "\<forall>k\<in>set S. map_of v k \<noteq> None" and w: "\<forall>k\<in>set S. map_of w k \<noteq> None"
    by (simp_all add: map_of_None_index)
  let ?sc = "map (\<lambda>k. (k, the (map_of v k) * the (map_of w k))) S"
  have sc: "score v w S = Inr ?sc"
    by (simp add: score_def getitem_ok [OF v] getitem_ok [OF w] np_multiply_selected)
  have "index ?sc = S"
    by (simp add: index_def comp_def)
  moreover have "\<forall>name\<in>set S. \<exists>x y. map_of v name = Some x \<and> map_of w name = Some y \<and>
                                 map_of ?sc name = Some (x * y)"
    using v w by (fastforce simp: map_of_selected)
  ultimately show "\<exists>sc. score v w S = Inr sc \<and> index sc = S \<and>
         (\<forall>name\<in>set S. \<exists>x y. map_of v name = Some x \<and> map_of w name = Some y \<and>
                                 map_of sc name = Some (x * y))"
    using sc by blast
next
  assume "\<exists>name\<in>set S. name \<notin> set (index v) \<or> name \<notin> set (index w)"
  then have bad: "(\<exists>k\<in>set S. map_of v k = None) \<or> (\<exists>k\<in>set S. map_of w k = None)"
    by (auto simp: map_of_None_index)
  show "\<exists>missing. missing \<noteq> [] \<and> set missing \<subseteq> set S \<and>
                  score v w S = Inl (KeyError missing)"
  proof (cases "\<exists>k\<in>set S. map_of v k = None")
    case True
    then show ?thesis
      by (auto simp: score_def getitem_missing filter_empty_conv)
  next
    case False
    then have v: "\<forall>k\<in>set S. map_of v k \<noteq> None" by simp
    from False bad have w: "\<exists>k\<in>set S. map_of w k = None" by blast
    show ?thesis
      using w by (auto simp: score_def getitem_ok [OF v] getitem_missing [OF w] filter_empty_conv)
  qed
qed

theorem score_lookup_witness:
  "(\<exists>sc. score [(''num_words'', 2), (''num_images'', - 1)]
               [(''num_words'', 4), (''num_images'', 3)]
               [''num_images'', ''num_words''] = Inr sc \<and>
         index sc = [''num_images'', ''num_words''] \<and>
         map_of sc ''num_images'' = Some (- 3) \<and> map_of sc ''num_words'' = Some 8) \<and>
   (\<exists>missing. score [(''num_words'', 2), (''num_images'', - 1)]
                    [(''num_words'', 4), (''num_images'', 3)]
                    [''num_images'', ''typo_feature''] = Inl (KeyError missing))"
proof -
  let ?v = "[(''num_words'', 2 :: real), (''num_images'', - 1)]"
  let ?w = "[(''num_words'', 4 :: real), (''num_images'', 3)]"
  have good: "\<forall>name\<in>set [''num_images'', ''num_words''].
                name \<in> set (index ?v) \<and> name \<in> set (index ?w)"
    by (simp add: index_def)
  have bad: "\<exists>name\<in>set [''num_images'', ''typo_feature''].
                name \<notin> set (index ?v) \<or> name \<notin> set (index ?w)"
    by (simp add: index_def)
  from score_lookup [of "[''num_images'', ''typo_feature'']" ?v ?w] bad
  have failing: "\<exists>missing. score ?v ?w [''num_images'', ''typo_feature''] = Inl (KeyError missing)"
    by blast
  from score_lookup [of "[''num_images'', ''num_words'']" ?v ?w] good
  obtain sc where sc: "score ?v ?w [''num_images'', ''num_words''] = Inr sc"
    "index sc = [''num_images'', ''num_words'']"
    "\<forall>name\<in>set [''num_images'', ''num_words''].
       \<exists>x y. map_of ?v name = Some x \<and> map_of ?w name = Some y \<and>
             map_of sc name = Some (x * y)"
    by blast
  from sc(3) have "map_of sc ''num_images'' = Some (- 3)" "map_of sc ''num_words'' = Some 8"
    by simp_all
  with sc(1,2) failing show ?thesis
    by blast
qed

text \<open>
  With exact products, \<open>score\<close> is linear in the standardized vector: scaling every
  entry by \<open>c\<close> scales every score by \<open>c\<close> and leaves the failures as they are.
\<close>

lemma score_linear:
  "score (scale c v) w S = map_sum id (scale c) (score v w S)"
  by (cases "getitem v S"; cases "getitem w S")
     (simp_all add: score_def getitem_scale np_multiply_scale)

subsection \<open>Rounding to float64\<close>



























subsection \<open>ScoreComposer on float64 numbers\<close>










lemma np_multiply_float64_selected:
  "np_multiply_float64 (map (\<lambda>k. (k, f k)) keys) (map (\<lambda>k. (k, g k)) keys) =
   map (\<lambda>k. (k, mul64 (f k) (g k))) keys"
  by (induction keys) (simp_all add: np_multiply_float64_def)


lemma map_of_fin: "map_of (fin s) k = map_option Fin (map_of s k)"
  by (induction s) (auto simp: fin_def)

lemma score_float64_rounds_score:
  "score_float64 (fin v) (fin w) S =
   map_sum id (map (\<lambda>(k, x). (k, float64 x))) (score v w S)"
proof (cases "\<forall>k\<in>set S. map_of v k \<noteq> None")
  case v: True
  then have fv: "\<forall>k\<in>set S. map_of (fin v) k \<noteq> None"
    by (simp add: map_of_fin)
  show ?thesis
  proof (cases "\<forall>k\<in>set S. map_of w k \<noteq> None")
    case w: True
    then have fw: "\<forall>k\<in>set S. map_of (fin w) k \<noteq> None"
      by (simp add: map_of_fin)
    have "map (\<lambda>k. (k, mul64 (the (map_of (fin v) k)) (the (map_of (fin w) k)))) S =
          map (\<lambda>k. (k, float64 (the (map_of v k) * the (map_of w k)))) S"
      using v w by (fastforce simp: map_of_fin)
    then show ?thesis
      by (simp add: score_float64_def score_def getitem_ok [OF v] getitem_ok [OF w]
          getitem_ok [OF fv] getitem_ok [OF fw] np_multiply_float64_selected
          np_multiply_selected comp_def)
  next
    case False
    then have w: "\<exists>k\<in>set S. map_of w k = None" by simp
    then have fw: "\<exists>k\<in>set S. map_of (fin w) k = None"
      by (simp add: map_of_fin)
    show ?thesis
      by (simp add: score_float64_def score_def getitem_ok [OF v] getitem_ok [OF fv]
          getitem_missing [OF w] getitem_missing [OF fw] map_of_fin)
  qed
next
  case False
  then have v: "\<exists>k\<in>set S. map_of v k = None" by simp
  then have fv: "\<exists>k\<in>set S. map_of (fin v) k = None"
    by (simp add: map_of_fin)
  show ?thesis
    by (simp add: score_float64_def score_def getitem_missing [OF v] getitem_missing [OF fv]
        map_of_fin)
qed





subsection \<open>Selection and averaging of the cohort\<close>

lemma fge_feq: "feq a b \<Longrightarrow> fge a b"
  by (cases a; cases b) (auto simp: feq_def fge_def)

lemma fge_NaN [simp]: "fge NaN b = False"
  by (cases b) (simp_all add: fge_def)


lemma isnull_all_select: "isnull_all (map (meta r) features) \<longleftrightarrow> \<not> has_data r"
  by (simp add: isnull_all_def has_data_def list_all_iff list_ex_iff)

lemma X_cleaned_select:
  "X_cleaned (select_columns names rows) =
   map (\<lambda>r. map (\<lambda>f. fill0 (meta r f)) names) (filter (\<lambda>r. \<not> isnull_all (map (meta r) names)) rows)"
  by (simp add: X_cleaned_def select_columns_def fillna_def filter_map comp_def fill0_def)

lemma df_mean_columns:
  "df_mean names (map (\<lambda>r. map (h r) names) kept) =
   map (\<lambda>f. (f, mean (map (\<lambda>r. h r f) kept))) names"
proof -
  have "df_mean names (map (\<lambda>r. map (h r) names) kept) =
        map (\<lambda>j. (names ! j, mean (map (\<lambda>r. h r (names ! j)) kept))) [0..<length names]"
    by (simp add: df_mean_def comp_def)
  also have "\<dots> = map (\<lambda>f. (f, mean (map (\<lambda>r. h r f) kept))) (map (\<lambda>j. names ! j) [0..<length names])"
    by (simp add: comp_def)
  also have "\<dots> = map (\<lambda>f. (f, mean (map (\<lambda>r. h r f) kept))) names"
    by (simp only: map_nth)
  finally show ?thesis .
qed

lemma avg_top_projects_eq:
  "avg_top_projects selected =
   map (\<lambda>f. (f, mean (map (\<lambda>r. fill0 (meta r f)) (filter has_data selected)))) features"
  by (simp add: avg_top_projects_def X_cleaned_select isnull_all_select df_mean_columns)




lemma distinct_features: "distinct features"
  by (simp add: features_def)

lemma map_of_avg:
  "f \<in> set features \<Longrightarrow>
   map_of (avg_top_projects selected) f =
   Some (mean (map (\<lambda>r. fill0 (meta r f)) (filter has_data selected)))"
  by (simp add: avg_top_projects_eq map_of_selected)

lemma scenario1_limit: "quantile_limit scenario1_rows (1 / 2) = Inr (Fin (5 / 4))"
  by (simp add: quantile_limit_def quantile_def percent_funded_def scenario1_rows_def
      scenario1_first_def scenario1_second_def sort_f_def lerp_def fsub_def Let_def)

lemma scenario1_top: "top_projects scenario1_rows (Fin (5 / 4)) = [scenario1_first]"
  by (simp add: top_projects_def percent_funded_def scenario1_rows_def fge_def
      scenario1_first_def scenario1_second_def)

lemma has_data_scenario1_first: "has_data scenario1_first"
  by (simp add: has_data_def scenario1_first_def features_def)

lemma has_data_boundary: "has_data boundary_project"
  by (simp add: has_data_def boundary_project_def features_def)


lemma not_has_data_no_data: "\<not> has_data no_data_project"
  by (simp add: has_data_def no_data_project_def features_def)

lemma boundary_limit:
  "quantile_limit (boundary_project # scenario1_rows) (1 / 2) = Inr (Fin (5 / 4))"
  by (simp add: quantile_limit_def quantile_def percent_funded_def scenario1_rows_def
      scenario1_first_def scenario1_second_def boundary_project_def sort_f_def lerp_def fsub_def Let_def)

text \<open>
  C2. The selection of the top cohort is inclusive at the quantile boundary: a row whose
  success ratio equals the computed threshold is selected. In the first scenario of the
  specification (ratios 2.0 and 0.5, quantile 0.5) the threshold is 1.25, only the first
  row is selected, and the reference mean of \<^verbatim>\<open>num_images\<close> is 0.
\<close>

theorem quantile_inclusive:
  "(r \<in> set rows \<and> quantile_limit rows q = Inr limit \<and> feq (percent_funded r) limit \<longrightarrow>
      r \<in> set (top_projects rows limit)) \<and>
   quantile_limit scenario1_rows (1 / 2) = Inr (Fin (5 / 4)) \<and>
   top_projects scenario1_rows (Fin (5 / 4)) = [scenario1_first] \<and>
   (\<exists>ref. build_reference scenario1_rows (1 / 2) = Inr ref \<and>
          map_of ref ''num_images'' = Some (Fin 0))"
proof (intro conjI impI)
  assume "r \<in> set rows \<and> quantile_limit rows q = Inr limit \<and> feq (percent_funded r) limit"
  then show "r \<in> set (top_projects rows limit)"
    by (simp add: top_projects_def fge_feq)
next
  show "quantile_limit scenario1_rows (1 / 2) = Inr (Fin (5 / 4))"
    by (rule scenario1_limit)
next
  show "top_projects scenario1_rows (Fin (5 / 4)) = [scenario1_first]"
    by (rule scenario1_top)
next
  have "''num_images'' \<in> set features"
    by (simp add: features_def)
  then have "map_of (avg_top_projects [scenario1_first]) ''num_images'' =
             Some (mean [fill0 (meta scenario1_first ''num_images'')])"
    by (simp add: map_of_avg has_data_scenario1_first)
  then have "map_of (avg_top_projects [scenario1_first]) ''num_images'' = Some (Fin 0)"
    by (simp add: mean_def fill0_def scenario1_first_def)
  then show "\<exists>ref. build_reference scenario1_rows (1 / 2) = Inr ref \<and>
                  map_of ref ''num_images'' = Some (Fin 0)"
    by (simp add: build_reference_def scenario1_limit scenario1_top)
qed

theorem quantile_inclusive_witness:
  "quantile_limit (boundary_project # scenario1_rows) (1 / 2) = Inr (Fin (5 / 4)) \<and>
   feq (percent_funded boundary_project) (Fin (5 / 4)) \<and>
   boundary_project \<in> set (top_projects (boundary_project # scenario1_rows) (Fin (5 / 4)))"
proof -
  have mem: "boundary_project \<in> set (boundary_project # scenario1_rows)"
    by simp
  have eq: "feq (percent_funded boundary_project) (Fin (5 / 4))"
    by (simp add: feq_def percent_funded_def boundary_project_def)
  from mem boundary_limit eq show ?thesis
    using quantile_inclusive [of boundary_project "boundary_project # scenario1_rows"
                                 "1 / 2" "Fin (5 / 4)"]
    by blast
qed


lemma build_reference_Inr:
  "build_reference rows q = Inr ref \<longleftrightarrow>
   (\<exists>limit. quantile_limit rows q = Inr limit \<and> ref = avg_top_projects (top_projects rows limit))"
  by (auto simp: build_reference_def split: sum.splits)

lemma index_avg: "index (avg_top_projects selected) = features"
  by (simp add: avg_top_projects_eq index_def comp_def)

lemma boundary_top:
  "top_projects (boundary_project # scenario1_rows) (Fin (5 / 4)) =
   [boundary_project, scenario1_first]"
  by (simp add: top_projects_def percent_funded_def scenario1_rows_def fge_def
      scenario1_first_def scenario1_second_def boundary_project_def)

text \<open>
  C7. Within the selected top cohort, \<open>build_reference\<close> drops every row in which all
  19 feature values are missing, reads each missing value of the remaining rows as 0, and
  returns, over the 19 feature names, the arithmetic mean of each column over the
  remaining rows.
\<close>

theorem reference_means:
  "build_reference rows q = Inr ref \<longrightarrow>
   (\<exists>limit. quantile_limit rows q = Inr limit \<and> index ref = features \<and>
      (let kept = filter has_data (top_projects rows limit)
       in kept \<noteq> [] \<longrightarrow>
          (\<forall>f\<in>set features.
             map_of ref f = Some (Fin ((\<Sum>r\<leftarrow>kept. fill0 (meta r f)) / real (length kept))))))"
proof
  assume "build_reference rows q = Inr ref"
  then obtain limit where limit: "quantile_limit rows q = Inr limit"
    and ref: "ref = avg_top_projects (top_projects rows limit)"
    by (auto simp: build_reference_Inr)
  have "index ref = features"
    by (simp add: ref index_avg)
  moreover have "\<forall>f\<in>set features.
      map_of ref f =
      Some (Fin ((\<Sum>r\<leftarrow>filter has_data (top_projects rows limit). fill0 (meta r f)) /
                 real (length (filter has_data (top_projects rows limit)))))"
    if "filter has_data (top_projects rows limit) \<noteq> []"
    using that by (simp add: ref map_of_avg mean_def)
  ultimately show "\<exists>limit. quantile_limit rows q = Inr limit \<and> index ref = features \<and>
      (let kept = filter has_data (top_projects rows limit)
       in kept \<noteq> [] \<longrightarrow>
          (\<forall>f\<in>set features.
             map_of ref f = Some (Fin ((\<Sum>r\<leftarrow>kept. fill0 (meta r f)) / real (length kept)))))"
    using limit by (auto simp: Let_def)
qed

theorem reference_means_witness:
  "\<exists>ref. build_reference (boundary_project # scenario1_rows) (1 / 2) = Inr ref \<and>
         index ref = features \<and> map_of ref ''num_images'' = Some (Fin 2)"
proof -
  let ?ref = "avg_top_projects (top_projects (boundary_project # scenario1_rows) (Fin (5 / 4)))"
  have built: "build_reference (boundary_project # scenario1_rows) (1 / 2) = Inr ?ref"
    by (simp add: build_reference_def boundary_limit)
  have kept: "filter has_data (top_projects (boundary_project # scenario1_rows) (Fin (5 / 4))) =
              [boundary_project, scenario1_first]"
    by (simp add: boundary_top has_data_boundary has_data_scenario1_first)
  have images: "''num_images'' \<in> set features"
    by (simp add: features_def)
  from reference_means [of "boundary_project # scenario1_rows" "1 / 2" ?ref] built
  have "index ?ref = features \<and>
        map_of ?ref ''num_images'' =
        Some (Fin ((\<Sum>r\<leftarrow>[boundary_project, scenario1_first]. fill0 (meta r ''num_images'')) /
                   real (length [boundary_project, scenario1_first])))"
    using images by (simp add: boundary_limit kept Let_def)
  then have "index ?ref = features \<and> map_of ?ref ''num_images'' = Some (Fin 2)"
    by (simp add: fill0_def boundary_project_def scenario1_first_def)
  with built show ?thesis
    by blast
qed

















lemma no_data_limit: "quantile_limit no_data_rows (1 / 2) = Inr (Fin (5 / 4))"
  by (simp add: quantile_limit_def quantile_def percent_funded_def no_data_rows_def
      no_data_project_def scenario1_second_def sort_f_def lerp_def fsub_def Let_def)

lemma no_data_top: "top_projects no_data_rows (Fin (5 / 4)) = [no_data_project]"
  by (simp add: top_projects_def percent_funded_def no_data_rows_def fge_def
      no_data_project_def scenario1_second_def)

lemma X_cleaned_empty:
  "X_cleaned (select_columns features selected) = [] \<longleftrightarrow> filter has_data selected = []"
  by (simp add: X_cleaned_select isnull_all_select)

lemma avg_nan_vector: "avg_top_projects selected = nan_vector \<longleftrightarrow> filter has_data selected = []"
proof
  assume "filter has_data selected = []"
  then show "avg_top_projects selected = nan_vector"
    by (simp add: avg_top_projects_eq nan_vector_def mean_def)
next
  assume eq: "avg_top_projects selected = nan_vector"
  have "''num_sents'' \<in> set features"
    by (simp add: features_def)
  then have "map_of (avg_top_projects selected) ''num_sents'' =
             Some (mean (map (\<lambda>r. fill0 (meta r ''num_sents'')) (filter has_data selected)))"
    and "map_of nan_vector ''num_sents'' = Some NaN"
    by (simp_all add: map_of_avg nan_vector_def map_of_selected)
  with eq have "mean (map (\<lambda>r. fill0 (meta r ''num_sents'')) (filter has_data selected)) = NaN"
    by simp
  then show "filter has_data selected = []"
    by (simp add: mean_def split: if_splits)
qed

text \<open>
  A cohort whose only selected project has no meta feature at all: the selection is empty
  after the removal of rows without data, and the result is not an error.
\<close>

theorem empty_selection_counterexample:
  "quantile_limit no_data_rows (1 / 2) = Inr (Fin (5 / 4)) \<and>
   X_cleaned (select_columns features (top_projects no_data_rows (Fin (5 / 4)))) = [] \<and>
   build_reference no_data_rows (1 / 2) = Inr nan_vector"
  by (simp add: build_reference_def no_data_limit no_data_top X_cleaned_empty avg_nan_vector
      not_has_data_no_data)

text \<open>
  C5, as the code has it. When the threshold is computed and the selection is empty
  after the removal of rows without data, \<open>build_reference\<close> raises nothing: it
  returns the vector whose 19 entries are NaN, and it returns that vector in no other
  case (so never a vector of zeros for an empty selection).
\<close>

theorem empty_selection_nan:
  "quantile_limit rows q = Inr limit \<longrightarrow>
   (X_cleaned (select_columns features (top_projects rows limit)) = [] \<longleftrightarrow>
    build_reference rows q = Inr nan_vector)"
  by (simp add: build_reference_def X_cleaned_empty avg_nan_vector)


theorem empty_selection_nan_witness:
  "X_cleaned (select_columns features (top_projects no_data_rows (Fin (5 / 4)))) = [] \<and>
   build_reference no_data_rows (1 / 2) = Inr nan_vector \<and>
   build_reference scenario1_rows (1 / 2) \<noteq> Inr nan_vector"
proof -
  have empty: "X_cleaned (select_columns features (top_projects no_data_rows (Fin (5 / 4)))) = []"
    by (simp add: no_data_top X_cleaned_empty not_has_data_no_data)
  have full: "X_cleaned (select_columns features (top_projects scenario1_rows (Fin (5 / 4)))) \<noteq> []"
    by (simp add: scenario1_top X_cleaned_empty has_data_scenario1_first)
  from empty_selection_nan [of no_data_rows "1 / 2" "Fin (5 / 4)"] no_data_limit empty
  have "build_reference no_data_rows (1 / 2) = Inr nan_vector"
    by blast
  moreover from empty_selection_nan [of scenario1_rows "1 / 2" "Fin (5 / 4)"] scenario1_limit full
  have "build_reference scenario1_rows (1 / 2) \<noteq> Inr nan_vector"
    by blast
  ultimately show ?thesis
    using empty by blast
qed


subsection \<open>RecommendationAssembler\<close>

lemma series_cells:
  "index s = S \<Longrightarrow> distinct S \<Longrightarrow>
   map (\<lambda>k. map_of s k) S = map (\<lambda>p. Some (snd p)) s"
proof -
  assume S: "index s = S" and d: "distinct S"
  have s: "s = zip S (map snd s)"
    using S by (metis index_def zip_map_fst_snd)
  have len: "length s = length S"
    using S by (metis index_def length_map)
  show ?thesis
  proof (rule nth_equalityI)
    show "length (map (\<lambda>k. map_of s k) S) = length (map (\<lambda>p. Some (snd p)) s)"
      by (simp add: len)
  next
    fix i
    assume "i < length (map (\<lambda>k. map_of s k) S)"
    then have i: "i < length S" by simp
    have "map_of (zip S (map snd s)) (S ! i) = Some (map snd s ! i)"
      using d i len by (intro map_of_zip_nth) simp_all
    with s have "map_of s (S ! i) = Some (snd (s ! i))"
      using i len by simp
    then show "map (\<lambda>k. map_of s k) S ! i = map (\<lambda>p. Some (snd p)) s ! i"
      using i len by simp
  qed
qed

lemma messy_rows:
  assumes c: "index c = S" and r: "index r = S" and d: "distinct S"
  shows "messy c r = Inr (zip S (zip (map (\<lambda>p. Some (snd p)) c) (map (\<lambda>p. Some (snd p)) r)))"
proof -
  have "map (\<lambda>k. (k, map_of c k, map_of r k)) S =
        zip S (zip (map (\<lambda>k. map_of c k) S) (map (\<lambda>k. map_of r k) S))"
    by (induction S) simp_all
  then have "map (\<lambda>k. (k, map_of c k, map_of r k)) S =
        zip S (zip (map (\<lambda>p. Some (snd p)) c) (map (\<lambda>p. Some (snd p)) r))"
    by (simp only: series_cells [OF c d] series_cells [OF r d])
  then show ?thesis
    using c r d by (simp add: messy_def)
qed

lemma messy_repeated:
  "index c = S \<Longrightarrow> \<not> distinct S \<Longrightarrow> messy c r = Inl InvalidIndexError"
  by (simp add: messy_def)

lemma assemble_rows:
  assumes c: "index c = S" and r: "index r = S" and d: "distinct S"
    and n: "length S = length labels"
  shows "assemble c r S =
         Inr (zip labels (zip (map (\<lambda>p. Some (snd p)) c) (map (\<lambda>p. Some (snd p)) r)))"
proof -
  have len: "length c = length labels" "length r = length labels"
    using c r n by (metis index_def length_map)+
  have "map (\<lambda>((pos, label), (k, x, y)). (label, x, y))
            (zip (zip [0..<length labels] labels)
                 (zip S (zip (map (\<lambda>p. Some (snd p)) c) (map (\<lambda>p. Some (snd p)) r)))) =
        zip labels (zip (map (\<lambda>p. Some (snd p)) c) (map (\<lambda>p. Some (snd p)) r))"
    using n len by (intro nth_equalityI) simp_all
  then show ?thesis
    using n by (simp add: assemble_def yticks_def messy_rows [OF c r d])
qed

lemma tidy_order: "map fst (tidy m) = map fst m @ map fst m"
  by (simp add: tidy_def comp_def case_prod_beta)

lemma label_table:
  "length labels = length predictive_features \<and> distinct predictive_features \<and>
   (\<forall>name\<in>set predictive_features.
      length (filter (\<lambda>entry. fst entry = name) (zip predictive_features labels)) = 1)"
  by (simp add: labels_def predictive_features_def)

text \<open>
  Six scores over a list of six different names whose first name, \<^verbatim>\<open>num_videos\<close>,
  has no label among the labels of the predictive features: nothing fails, and the scores
  of \<^verbatim>\<open>num_videos\<close> are shown under the first label.
\<close>

theorem assemble_unlabelled_counterexample:
  "distinct unlabelled_subset \<and>
   index unlabelled_candidate = unlabelled_subset \<and>
   index unlabelled_reference = unlabelled_subset \<and>
   map_of (zip predictive_features labels) ''num_videos'' = None \<and>
   assemble unlabelled_candidate unlabelled_reference unlabelled_subset =
     Inr [(''hyperlinks'', Some 1, Some 6), (''images'', Some (- 2), Some 5),
          (''innovation words'', Some 3, Some 4), (''exclamation marks'', Some (- 4), Some 3),
          (''bolded text'', Some 5, Some 2), (''length of description'', Some (- 6), Some 1)]"
  by (simp add: assemble_def yticks_def messy_def index_def labels_def predictive_features_def
      unlabelled_candidate_def unlabelled_reference_def unlabelled_subset_def upt_conv_Cons)

text \<open>
  C9, as the code has it. For score series over the caller's list of names, the names
  all different and as many as there are labels, the rows come out in the caller's order,
  whatever the scores are, and the \<open>i\<close>-th row carries the \<open>i\<close>-th label of the fixed
  list: labels are attached by position, not looked up by name, so a name without a
  label does not make it fail. A list with a repeated name does: the table of the two
  series cannot be built. The list of labels has one label for each of the predictive
  features, which are distinct, so each of them has exactly one entry.
\<close>

theorem assemble_positional:
  "(index candidate_scores = S \<and> index reference_scores = S \<and> distinct S \<and>
    length S = length labels \<longrightarrow>
      assemble candidate_scores reference_scores S =
        Inr (zip labels (zip (map (\<lambda>p. Some (snd p)) candidate_scores)
                             (map (\<lambda>p. Some (snd p)) reference_scores))) \<and>
      (\<exists>m. messy candidate_scores reference_scores = Inr m \<and> map fst m = S \<and>
           map fst (tidy m) = S @ S)) \<and>
   (index candidate_scores = S \<and> \<not> distinct S \<longrightarrow>
      assemble candidate_scores reference_scores S = Inl InvalidIndexError) \<and>
   length labels = length predictive_features \<and> distinct predictive_features \<and>
   (\<forall>name\<in>set predictive_features.
      length (filter (\<lambda>entry. fst entry = name) (zip predictive_features labels)) = 1)"
proof -
  have ordered: "assemble candidate_scores reference_scores S =
        Inr (zip labels (zip (map (\<lambda>p. Some (snd p)) candidate_scores)
                             (map (\<lambda>p. Some (snd p)) reference_scores))) \<and>
      (\<exists>m. messy candidate_scores reference_scores = Inr m \<and> map fst m = S \<and>
           map fst (tidy m) = S @ S)"
    if a: "index candidate_scores = S \<and> index reference_scores = S \<and> distinct S \<and>
           length S = length labels"
  proof -
    from a have len: "length candidate_scores = length S" "length reference_scores = length S"
      by (metis index_def length_map)+
    let ?m = "zip S (zip (map (\<lambda>p. Some (snd p)) candidate_scores)
                         (map (\<lambda>p. Some (snd p)) reference_scores))"
    from a have m: "messy candidate_scores reference_scores = Inr ?m"
      by (simp add: messy_rows)
    have fst: "map fst ?m = S"
      using len by simp
    then have "map fst (tidy ?m) = S @ S"
      by (simp only: tidy_order)
    with a m fst show ?thesis
      by (simp add: assemble_rows)
  qed
  have repeated: "assemble candidate_scores reference_scores S = Inl InvalidIndexError"
    if "index candidate_scores = S \<and> \<not> distinct S"
    using that by (simp add: assemble_def messy_repeated)
  from ordered repeated label_table show ?thesis
    by blast
qed

theorem assemble_positional_witness:
  "assemble example_candidate example_reference predictive_features =
     Inr [(''hyperlinks'', Some 1, Some 6), (''images'', Some (- 2), Some 5),
          (''innovation words'', Some 3, Some 4), (''exclamation marks'', Some (- 4), Some 3),
          (''bolded text'', Some 5, Some 2), (''length of description'', Some (- 6), Some 1)] \<and>
   assemble [(''num_words'', 1), (''num_words'', 2)] [(''num_words'', 3), (''num_words'', 4)]
            [''num_words'', ''num_words''] = Inl InvalidIndexError"
proof -
  have h: "index example_candidate = predictive_features \<and>
           index example_reference = predictive_features \<and> distinct predictive_features \<and>
           length predictive_features = length labels"
    by (simp add: index_def example_candidate_def example_reference_def predictive_features_def
        labels_def)
  have rows: "zip labels (zip (map (\<lambda>p. Some (snd p)) example_candidate)
                              (map (\<lambda>p. Some (snd p)) example_reference)) =
        [(''hyperlinks'', Some 1, Some 6), (''images'', Some (- 2), Some 5),
          (''innovation words'', Some 3, Some 4), (''exclamation marks'', Some (- 4), Some 3),
          (''bolded text'', Some 5, Some 2), (''length of description'', Some (- 6), Some 1)]"
    by (simp add: example_candidate_def example_reference_def predictive_features_def labels_def)
  have dup: "index [(''num_words'', 1 :: real), (''num_words'', 2)] = [''num_words'', ''num_words''] \<and>
             \<not> distinct [''num_words'', ''num_words'']"
    by (simp add: index_def)
  from assemble_positional [of example_candidate predictive_features example_reference] h
  have "assemble example_candidate example_reference predictive_features =
        Inr (zip labels (zip (map (\<lambda>p. Some (snd p)) example_candidate)
                             (map (\<lambda>p. Some (snd p)) example_reference)))"
    by blast
  moreover from assemble_positional [of "[(''num_words'', 1), (''num_words'', 2)]"
      "[''num_words'', ''num_words'']" "[(''num_words'', 3), (''num_words'', 4)]"] dup
  have "assemble [(''num_words'', 1), (''num_words'', 2)] [(''num_words'', 3), (''num_words'', 4)]
            [''num_words'', ''num_words''] = Inl InvalidIndexError"
    by blast
  ultimately show ?thesis
    by (simp only: rows) 
qed


subsection \<open>Coefficients and training columns\<close>

lemma ravel_T_row: "ravel_T [c] = c"
  by (induction c) (simp_all add: ravel_T_def)

lemma feature_ranks_row:
  "length features \<le> length c \<Longrightarrow>
   feature_ranks [c] = Inr (zip features (take (length features) c))"
  by (simp add: feature_ranks_def ravel_T_row pd_Series_def)

lemma map_of_zip_features:
  "length features \<le> length c \<Longrightarrow> j < length features \<Longrightarrow>
   map_of (zip features (take (length features) c)) (features ! j) = Some (c ! j)"
  using map_of_zip_nth [of features "take (length features) c" j]
  by (simp add: distinct_features)

lemma dot_append:
  "dot ws (a @ g) = dot (take (length a) ws) a + dot (drop (length a) ws) g"
  by (simp add: dot_def zip_append2)

lemma transform_Inr:
  "transform sc X = Inr Xs \<Longrightarrow>
   Xs = map (\<lambda>row. map (\<lambda>(x, m, s). (x - m) / s)
                      (zip row (zip (scaler_mean sc) (scaler_scale sc)))) X \<and>
   length (scaler_scale sc) = length (scaler_mean sc) \<and>
   (\<forall>row\<in>set X. length row = length (scaler_mean sc))"
  by (auto simp: transform_def list_all_iff split: if_splits)

lemma hstack_Inr:
  "hstack A B = Inr C \<Longrightarrow> length B = length A \<and> C = map (\<lambda>(a, b). a @ b) (zip A B)"
  by (auto simp: hstack_def split: if_splits)

lemma X_full_rows:
  assumes "X_full sc rows X_ngrams = Inr Xf" and "i < length Xf"
  shows "length (filter has_data rows) = length Xf \<and> length X_ngrams = length Xf \<and>
         length (standardized_row sc (filter has_data rows ! i)) = length features \<and>
         Xf ! i = standardized_row sc (filter has_data rows ! i) @ X_ngrams ! i"
proof -
  let ?kept = "filter has_data rows"
  let ?Xc = "map (\<lambda>r. map (\<lambda>f. fill0 (meta r f)) features) ?kept"
  from assms(1) obtain Xs where Xs: "transform sc ?Xc = Inr Xs" and h: "hstack Xs X_ngrams = Inr Xf"
    by (auto simp: X_full_def X_std_def X_cleaned_select isnull_all_select split: sum.splits)
  from transform_Inr [OF Xs] have Xs_eq: "Xs = map (\<lambda>row. map (\<lambda>(x, m, s). (x - m) / s)
                      (zip row (zip (scaler_mean sc) (scaler_scale sc)))) ?Xc"
    and len: "length (scaler_scale sc) = length (scaler_mean sc)"
    and rows: "\<forall>row\<in>set ?Xc. length row = length (scaler_mean sc)"
    by simp_all
  from hstack_Inr [OF h] have lenB: "length X_ngrams = length Xs"
    and Xf: "Xf = map (\<lambda>(a, b). a @ b) (zip Xs X_ngrams)"
    by simp_all
  have lenXs: "length Xs = length ?kept"
    by (simp add: Xs_eq)
  have lenXf: "length Xf = length ?kept"
    by (simp add: Xf lenB lenXs)
  with assms(2) have i: "i < length ?kept" by simp
  then have "?Xc ! i \<in> set ?Xc"
    by (intro nth_mem) simp
  with rows have "length (?Xc ! i) = length (scaler_mean sc)" by blast
  with i have width: "length (scaler_mean sc) = length features"
    by simp
  have row: "Xs ! i = standardized_row sc (?kept ! i)"
    using i width len
    by (simp add: Xs_eq standardized_row_def)
       (intro nth_equalityI, simp_all)
  have "Xf ! i = Xs ! i @ X_ngrams ! i"
    using i by (simp add: Xf lenB lenXs)
  with row lenXf lenB lenXs width len show ?thesis
    by (simp add: standardized_row_def)
qed


lemma example_X_full:
  "X_full unit_scaler scenario1_rows example_ngrams =
   Inr [[0, 0, 0, 0, 0, 0, 0, 0, 0, 0, 0, 0, 0, 0, 0, 0, 0, 0, 0, 1 / 2, 0],
        [0, 0, 0, 0, 0, 0, 0, 0, 0, 0, 0, 0, 2, 0, 0, 0, 0, 0, 0, 0, 1]]"
  by (simp add: X_full_def X_std_def X_cleaned_def select_columns_def fillna_def isnull_all_def
      transform_def hstack_def unit_scaler_def scenario1_rows_def scenario1_first_def
      scenario1_second_def example_ngrams_def features_def)

text \<open>
  C10. The coefficients used for scoring are the first 19 entries of the classifier's
  coefficient row, paired by position with the 19 feature names. Every row of the
  training matrix is the 19 standardized meta features of a project, in the order of
  \<open>features\<close>, followed by its n-gram columns, so the decision function applies the
  coefficient paired with a feature name to that same meta feature, and the remaining
  coefficients to the n-grams.
\<close>

theorem coefficient_alignment:
  "length features \<le> length c \<and> X_full sc rows X_ngrams = Inr Xf \<longrightarrow>
   (\<exists>ranks. feature_ranks [c] = Inr ranks \<and> index ranks = features \<and>
      map snd ranks = take (length features) c \<and>
      (\<forall>j<length features. map_of ranks (features ! j) = Some (c ! j)) \<and>
      (\<forall>i<length Xf.
         Xf ! i = standardized_row sc (filter has_data rows ! i) @ X_ngrams ! i \<and>
         decision_function c b (Xf ! i) =
           dot (map snd ranks) (standardized_row sc (filter has_data rows ! i)) +
           dot (drop (length features) c) (X_ngrams ! i) + b))"
proof
  assume a: "length features \<le> length c \<and> X_full sc rows X_ngrams = Inr Xf"
  let ?ranks = "zip features (take (length features) c)"
  from a have ranks: "feature_ranks [c] = Inr ?ranks"
    by (simp add: feature_ranks_row)
  from a have idx: "index ?ranks = features" and vals: "map snd ?ranks = take (length features) c"
    by (simp_all add: index_def)
  from a have coef: "\<forall>j<length features. map_of ?ranks (features ! j) = Some (c ! j)"
    by (simp add: map_of_zip_features)
  have rows: "Xf ! i = standardized_row sc (filter has_data rows ! i) @ X_ngrams ! i \<and>
         decision_function c b (Xf ! i) =
           dot (map snd ?ranks) (standardized_row sc (filter has_data rows ! i)) +
           dot (drop (length features) c) (X_ngrams ! i) + b" if "i < length Xf" for i
  proof -
    from a that X_full_rows [of sc rows X_ngrams Xf i]
    have w: "length (standardized_row sc (filter has_data rows ! i)) = length features"
      and row: "Xf ! i = standardized_row sc (filter has_data rows ! i) @ X_ngrams ! i"
      by simp_all
    show ?thesis
      by (simp only: row decision_function_def dot_append w vals)
  qed
  from ranks idx vals coef rows show "\<exists>ranks. feature_ranks [c] = Inr ranks \<and> index ranks = features \<and>
      map snd ranks = take (length features) c \<and>
      (\<forall>j<length features. map_of ranks (features ! j) = Some (c ! j)) \<and>
      (\<forall>i<length Xf.
         Xf ! i = standardized_row sc (filter has_data rows ! i) @ X_ngrams ! i \<and>
         decision_function c b (Xf ! i) =
           dot (map snd ranks) (standardized_row sc (filter has_data rows ! i)) +
           dot (drop (length features) c) (X_ngrams ! i) + b)"
    by blast
qed

theorem coefficient_alignment_witness:
  "(\<exists>ranks. feature_ranks [example_coef] = Inr ranks \<and>
            map_of ranks ''num_images'' = Some 13) \<and>
   (\<exists>Xf. X_full unit_scaler scenario1_rows example_ngrams = Inr Xf \<and>
          decision_function example_coef 0 (Xf ! 1) = 47)"
proof -
  let ?Xf = "[[0, 0, 0, 0, 0, 0, 0, 0, 0, 0, 0, 0, 0, 0, 0, 0, 0, 0, 0, 1 / 2, 0],
              [0, 0, 0, 0, 0, 0, 0, 0, 0, 0, 0, 0, 2, 0, 0, 0, 0, 0, 0, 0, 1 :: real]]"
  have h: "length features \<le> length example_coef \<and>
           X_full unit_scaler scenario1_rows example_ngrams = Inr ?Xf"
    by (simp add: example_X_full) (simp add: features_def example_coef_def)
  from coefficient_alignment [of example_coef unit_scaler scenario1_rows example_ngrams ?Xf 0] h
  obtain ranks where ranks: "feature_ranks [example_coef] = Inr ranks"
    and coef: "\<forall>j<length features. map_of ranks (features ! j) = Some (example_coef ! j)"
    by blast
  have "12 < length features" "features ! 12 = ''num_images''" "example_coef ! 12 = 13"
    by (simp_all add: features_def example_coef_def)
  with coef have images: "map_of ranks ''num_images'' = Some 13"
    by metis
  have "decision_function example_coef 0 (?Xf ! 1) = 47"
    by (simp add: decision_function_def dot_def example_coef_def)
  with ranks images example_X_full show ?thesis
    by simp
qed


subsection \<open>FeatureExtractor\<close>

lemma ratio_nonneg: "0 \<le> a \<Longrightarrow> 0 \<le> b \<Longrightarrow> 0 \<le> ratio a b"
  by (simp add: ratio_def)

lemma count_nonneg: "0 \<le> count P xs"
  by (simp add: count_def)

lemma count_Nil: "count P [] = 0"
  by (simp add: count_def)

lemma count_absent: "c \<notin> set xs \<Longrightarrow> count (\<lambda>ch. ch = c) xs = 0"
  by (auto simp: count_def filter_empty_conv)

lemma ratio_zero: "ratio a 0 = 0"
  by (simp add: ratio_def)

lemma index_extract: "index (extract_features kw c) = features"
  by (simp add: extract_features_def index_def features_def Let_def)

lemma extract_nonneg: "(name, x) \<in> set (extract_features kw c) \<Longrightarrow> 0 \<le> x"
  by (auto simp: extract_features_def Let_def intro!: ratio_nonneg count_nonneg)

text \<open>
  C6. For every input, the extracted vector is a series over exactly the 19 fixed feature
  names, each once, and every entry is a number that is not negative; there is no
  missing entry. Absent underlying data contributes 0: a section without sentences,
  words, text, paragraphs, images, videos, embedded videos, animated images, hyperlinks
  or bolded spans has 0 for each count that these would have incremented.
\<close>

theorem extract_total:
  "index (extract_features kw c) = features \<and> length features = 19 \<and> distinct features \<and>
   (\<forall>name\<in>set features. \<exists>x. map_of (extract_features kw c) name = Some x \<and> 0 \<le> x) \<and>
   (sentences c = [] \<longrightarrow> map_of (extract_features kw c) ''num_sents'' = Some 0) \<and>
   (tokens c = [] \<longrightarrow>
      map_of (extract_features kw c) ''num_words'' = Some 0 \<and>
      map_of (extract_features kw c) ''num_all_caps'' = Some 0 \<and>
      map_of (extract_features kw c) ''num_apple_words'' = Some 0) \<and>
   (section_text c = [] \<longrightarrow> map_of (extract_features kw c) ''num_exclms'' = Some 0) \<and>
   (paragraphs c = [] \<longrightarrow> map_of (extract_features kw c) ''num_paragraphs'' = Some 0) \<and>
   (images c = [] \<longrightarrow> map_of (extract_features kw c) ''num_images'' = Some 0) \<and>
   (videos c = [] \<longrightarrow> map_of (extract_features kw c) ''num_videos'' = Some 0) \<and>
   (youtubes c = [] \<longrightarrow> map_of (extract_features kw c) ''num_youtubes'' = Some 0) \<and>
   (gifs c = [] \<longrightarrow> map_of (extract_features kw c) ''num_gifs'' = Some 0) \<and>
   (hyperlinks c = [] \<longrightarrow> map_of (extract_features kw c) ''num_hyperlinks'' = Some 0) \<and>
   (bolded_spans c = [] \<longrightarrow> map_of (extract_features kw c) ''num_bolded'' = Some 0)"
proof -
  have names: "index (extract_features kw c) = features"
    by (rule index_extract)
  have nonneg: "\<forall>name\<in>set features. \<exists>x. map_of (extract_features kw c) name = Some x \<and> 0 \<le> x"
  proof
    fix name
    assume "name \<in> set features"
    then have "map_of (extract_features kw c) name \<noteq> None"
      by (simp add: map_of_None_index index_extract)
    then obtain x where x: "map_of (extract_features kw c) name = Some x"
      by blast
    then have "(name, x) \<in> set (extract_features kw c)"
      by (rule map_of_SomeD)
    then have "0 \<le> x"
      by (rule extract_nonneg)
    with x show "\<exists>x. map_of (extract_features kw c) name = Some x \<and> 0 \<le> x"
      by blast
  qed
  have absent: "(sentences c = [] \<longrightarrow> map_of (extract_features kw c) ''num_sents'' = Some 0) \<and>
   (tokens c = [] \<longrightarrow>
      map_of (extract_features kw c) ''num_words'' = Some 0 \<and>
      map_of (extract_features kw c) ''num_all_caps'' = Some 0 \<and>
      map_of (extract_features kw c) ''num_apple_words'' = Some 0) \<and>
   (section_text c = [] \<longrightarrow> map_of (extract_features kw c) ''num_exclms'' = Some 0) \<and>
   (paragraphs c = [] \<longrightarrow> map_of (extract_features kw c) ''num_paragraphs'' = Some 0) \<and>
   (images c = [] \<longrightarrow> map_of (extract_features kw c) ''num_images'' = Some 0) \<and>
   (videos c = [] \<longrightarrow> map_of (extract_features kw c) ''num_videos'' = Some 0) \<and>
   (youtubes c = [] \<longrightarrow> map_of (extract_features kw c) ''num_youtubes'' = Some 0) \<and>
   (gifs c = [] \<longrightarrow> map_of (extract_features kw c) ''num_gifs'' = Some 0) \<and>
   (hyperlinks c = [] \<longrightarrow> map_of (extract_features kw c) ''num_hyperlinks'' = Some 0) \<and>
   (bolded_spans c = [] \<longrightarrow> map_of (extract_features kw c) ''num_bolded'' = Some 0)"
    by (simp add: extract_features_def Let_def count_Nil)
  have "length features = 19"
    by (simp add: features_def)
  with names nonneg absent distinct_features show ?thesis
    by (intro conjI) blast+
qed

theorem extract_total_witness:
  "index (extract_features [''Smart''] example_campaign) = features \<and>
   (\<exists>x. map_of (extract_features [''Smart''] example_campaign) ''num_words'' = Some x \<and>
        0 \<le> x \<and> x = 8) \<and>
   map_of (extract_features [''Smart''] example_campaign) ''num_images'' = Some 0 \<and>
   map_of (extract_features [''Smart''] no_sentence_campaign) ''num_sents'' = Some 0 \<and>
   map_of (extract_features [''Smart''] no_sentence_campaign) ''num_paragraphs'' = Some 0"
proof -
  have "''num_words'' \<in> set features"
    by (simp add: features_def)
  with extract_total [of "[''Smart'']" example_campaign]
  obtain x where x: "map_of (extract_features [''Smart''] example_campaign) ''num_words'' = Some x"
    and pos: "0 \<le> x" and idx: "index (extract_features [''Smart''] example_campaign) = features"
    by blast
  have "map_of (extract_features [''Smart''] example_campaign) ''num_words'' = Some 8"
    by (simp add: extract_features_def example_campaign_def count_def ratio_def Let_def)
  with x have eight: "x = 8"
    by simp
  have "images example_campaign = []"
    by (simp add: example_campaign_def)
  with extract_total [of "[''Smart'']" example_campaign]
  have img: "map_of (extract_features [''Smart''] example_campaign) ''num_images'' = Some 0"
    by blast
  have "sentences no_sentence_campaign = []" "paragraphs no_sentence_campaign = []"
    by (simp_all add: no_sentence_campaign_def)
  with extract_total [of "[''Smart'']" no_sentence_campaign]
  have "map_of (extract_features [''Smart''] no_sentence_campaign) ''num_sents'' = Some 0"
       "map_of (extract_features [''Smart''] no_sentence_campaign) ''num_paragraphs'' = Some 0"
    by blast+
  with x pos idx eight img show ?thesis
    by blast
qed

text \<open>
  C4. Every ratio and average whose denominator is zero is 0: without sentences the
  average number of words per sentence and the share of exclamation marks are 0, without
  words the two word ratios are 0, without paragraphs the two paragraph averages are 0,
  and for an empty text the bolded share is 0. A text without exclamation marks has 0 of
  them.
\<close>

theorem zero_denominator:
  "ratio a 0 = 0 \<and>
   (sentences c = [] \<longrightarrow>
      map_of (extract_features kw c) ''avg_words_per_sent'' = Some 0 \<and>
      map_of (extract_features kw c) ''percent_exclms'' = Some 0) \<and>
   (CHR ''!'' \<notin> set (section_text c) \<longrightarrow>
      map_of (extract_features kw c) ''num_exclms'' = Some 0) \<and>
   (tokens c = [] \<longrightarrow>
      map_of (extract_features kw c) ''percent_all_caps'' = Some 0 \<and>
      map_of (extract_features kw c) ''percent_apple_words'' = Some 0) \<and>
   (paragraphs c = [] \<longrightarrow>
      map_of (extract_features kw c) ''avg_sents_per_paragraph'' = Some 0 \<and>
      map_of (extract_features kw c) ''avg_words_per_paragraph'' = Some 0) \<and>
   (section_text c = [] \<longrightarrow>
      map_of (extract_features kw c) ''percent_bolded'' = Some 0)"
  by (simp add: extract_features_def Let_def count_Nil ratio_zero count_absent)

theorem zero_denominator_witness:
  "map_of (extract_features [''Smart''] no_sentence_campaign) ''avg_words_per_sent'' = Some 0 \<and>
   map_of (extract_features [''Smart''] no_sentence_campaign) ''num_exclms'' = Some 0 \<and>
   map_of (extract_features [''Smart''] no_sentence_campaign) ''percent_exclms'' = Some 0 \<and>
   map_of (extract_features [''Smart''] no_sentence_campaign) ''num_words'' = Some 2"
proof -
  have h: "sentences no_sentence_campaign = [] \<and>
           CHR ''!'' \<notin> set (section_text no_sentence_campaign)"
    by (simp add: no_sentence_campaign_def)
  have "map_of (extract_features [''Smart''] no_sentence_campaign) ''num_words'' = Some 2"
    by (simp add: extract_features_def no_sentence_campaign_def count_def Let_def)
  with h zero_denominator [of 2 no_sentence_campaign "[''Smart'']"] show ?thesis
    by blast
qed


end
